theory Spec2Isabelle
  imports Complex_Main "HOL-Library.AList" "HOL-Library.Sublist"
begin

section \<open>Values: JSON, exceptions, Python helpers\<close>

text \<open>
  The program of \<^verbatim>\<open>function_app.py\<close> moves parsed JSON through a pandas DataFrame into
  one SQL table. A parsed JSON value is a Python object; \<open>JObj\<close> holds the items of a
  dict in insertion order (keys distinct, as in a dict). Numbers are integers here: the
  feed sends every field as a string or an integer. A \<^verbatim>\<open>str\<close> is the list of the bytes
  of its UTF-8 encoding, so a character below 128 is an ASCII character and every other
  byte belongs to a character outside ASCII.
\<close>

datatype json =
    JNull
  | JBool bool
  | JNum int
  | JStr string
  | JArr "json list"
  | JObj "(string \<times> json) list"

text \<open>
  Exceptions are values. \<open>LibraryError m\<close> is any exception raised inside \<^verbatim>\<open>requests\<close>,
  \<^verbatim>\<open>pyodbc\<close> or \<^verbatim>\<open>datetime\<close>, with \<open>m\<close> the text \<^verbatim>\<open>str(e)\<close> gives for it.
\<close>

datatype exn =
    KeyError string
  | AttributeError string string
  | ValueError string
  | TypeError string
  | NotImplementedError
  | LibraryError string

text \<open>
  \<open>quote\<close> is \<^verbatim>\<open>repr\<close> on a string of letters. It is applied to the names of types and
  attributes and to the one key \<^verbatim>\<open>SqlConnectionString\<close> only.
\<close>

definition quote :: "string \<Rightarrow> string" where
  "quote s = CHR 0x27 # s @ [CHR 0x27]"

fun type_name :: "json \<Rightarrow> string" where
  "type_name JNull = ''NoneType''"
| "type_name (JBool b) = ''bool''"
| "type_name (JNum n) = ''int''"
| "type_name (JStr s) = ''str''"
| "type_name (JArr xs) = ''list''"
| "type_name (JObj kvs) = ''dict''"

text \<open>\<^verbatim>\<open>str(e)\<close> of an exception.\<close>

fun str_exn :: "exn \<Rightarrow> string" where
  "str_exn (KeyError k) = quote k"
| "str_exn (AttributeError ty attr) =
     quote ty @ '' object has no attribute '' @ quote attr"
| "str_exn (ValueError m) = m"
| "str_exn (TypeError m) = m"
| "str_exn NotImplementedError = ''''"
| "str_exn (LibraryError m) = m"

text \<open>Python truthiness, as used by \<^verbatim>\<open>x or y\<close> and \<^verbatim>\<open>if not x\<close>.\<close>

fun truthy :: "json \<Rightarrow> bool" where
  "truthy JNull = False"
| "truthy (JBool b) = b"
| "truthy (JNum n) = (n \<noteq> 0)"
| "truthy (JStr s) = (s \<noteq> [])"
| "truthy (JArr xs) = (xs \<noteq> [])"
| "truthy (JObj kvs) = (kvs \<noteq> [])"

definition py_or :: "json \<Rightarrow> json \<Rightarrow> json" where
  "py_or x y = (if truthy x then x else y)"

text \<open>\<^verbatim>\<open>obj.get(key, default)\<close>: only a dict has the method.\<close>

fun dict_get :: "json \<Rightarrow> string \<Rightarrow> json \<Rightarrow> exn + json" where
  "dict_get (JObj kvs) key dflt =
     Inr (case map_of kvs key of None \<Rightarrow> dflt | Some v \<Rightarrow> v)"
| "dict_get v key dflt = Inl (AttributeError (type_name v) ''get'')"

text \<open>
  \<^verbatim>\<open>s.lower()\<close>; only a str has the method. The ASCII letters are lowered and every
  other byte is kept. The program only compares the result with \<^verbatim>\<open>true\<close> and with
  \<^verbatim>\<open>json\<close>, and no character outside ASCII lowers into a letter of these two words, so
  the comparisons come out as in Python.
\<close>

definition lower_char :: "char \<Rightarrow> char" where
  "lower_char c =
     (let n = (of_char c :: nat) in if 65 \<le> n \<and> n \<le> 90 then char_of (n + 32) else c)"

fun lower :: "json \<Rightarrow> exn + string" where
  "lower (JStr s) = Inr (map lower_char s)"
| "lower v = Inl (AttributeError (type_name v) ''lower'')"

section \<open>DataFrame\<close>

text \<open>
  A DataFrame built from records is the list of its rows, each the flat dict it was
  built from. Its columns are the keys in order of first appearance; a row lacking a
  column holds the missing value there.
\<close>

type_synonym record_row = "(string \<times> json) list"
type_synonym dataframe = "record_row list"

definition columns :: "dataframe \<Rightarrow> string list" where
  "columns df = rev (remdups (rev (concat (map (map fst) df))))"

text \<open>\<^verbatim>\<open>df.empty\<close>: some axis has length zero.\<close>

definition empty :: "dataframe \<Rightarrow> bool" where
  "empty df = (df = [] \<or> columns df = [])"

section \<open>The libraries\<close>

text \<open>
  What CPython, numpy, pandas and \<^verbatim>\<open>datetime\<close> do where it depends on their version, on
  the Unicode tables or on the platform is not fixed here. It is a parameter of the
  program, and every property below holds for every value of it.

  \<^item> \<open>fromtimestamp\<close> is \<^verbatim>\<open>datetime.fromtimestamp\<close>: it takes the number of seconds and
    returns a datetime or raises.
  \<^item> \<open>int_non_ascii\<close> is \<^verbatim>\<open>int(s)\<close> for a str with a character outside ASCII; the
    Unicode tables say which of these are spaces and digits.
  \<^item> \<open>int_max_str_digits\<close> is \<^verbatim>\<open>sys.get_int_max_str_digits()\<close>: 4300 by default from
    Python 3.11 on, 0 where there is no limit.
  \<^item> \<open>int_error_text\<close> is the text of the exception \<^verbatim>\<open>int(x)\<close> raises for a value it
    rejects.
  \<^item> \<open>isnull_list\<close> is the truth value of \<^verbatim>\<open>pd.isnull(xs)\<close> for a list: numpy decides
    on the shape of the array, and an array has a truth value or raises.
  \<^item> \<open>number_cell\<close> is the value a row of \<^verbatim>\<open>df.iterrows()\<close> holds in a column for an
    integer of the records: pandas infers the type of each column and of each row, and
    hands the integer back as it is or as a float.
  \<^item> \<open>non_dict_entries\<close> is \<^verbatim>\<open>pd.json_normalize\<close> on a list with an entry that is not a
    dict: a DataFrame in pandas 2, a \<^verbatim>\<open>TypeError\<close> in pandas 3.
\<close>

record 'd library =
  fromtimestamp :: "rat \<Rightarrow> exn + 'd"
  int_non_ascii :: "string \<Rightarrow> exn + int"
  int_max_str_digits :: nat
  int_error_text :: "json \<Rightarrow> string"
  isnull_list :: "json list \<Rightarrow> exn + bool"
  number_cell :: "dataframe \<Rightarrow> string \<Rightarrow> int \<Rightarrow> json"
  non_dict_entries :: "json list \<Rightarrow> exn + dataframe"

subsection \<open>\<^verbatim>\<open>int(x)\<close>\<close>

text \<open>
  Of an ASCII str: spaces (the characters 9 to 13 and 32) are dropped at both ends, one
  sign may follow, then decimal digits with single underscores between two digits.
  \<open>py_digits\<close> returns the value and the number of digits; the flag says whether the
  previous character was a digit. More than 640 digits are checked against the limit.
\<close>

definition is_space :: "char \<Rightarrow> bool" where
  "is_space c = (let n = (of_char c :: nat) in (9 \<le> n \<and> n \<le> 13) \<or> n = 32)"

definition is_digit :: "char \<Rightarrow> bool" where
  "is_digit c = (let n = (of_char c :: nat) in 48 \<le> n \<and> n \<le> 57)"

definition digit_val :: "char \<Rightarrow> int" where
  "digit_val c = int (of_char c) - 48"

definition strip :: "string \<Rightarrow> string" where
  "strip s = rev (dropWhile is_space (rev (dropWhile is_space s)))"

fun py_digits :: "bool \<Rightarrow> int \<Rightarrow> nat \<Rightarrow> string \<Rightarrow> (int \<times> nat) option" where
  "py_digits prev acc k [] = (if prev then Some (acc, k) else None)"
| "py_digits prev acc k (c # cs) =
     (if is_digit c then py_digits True (10 * acc + digit_val c) (Suc k) cs
      else if c = CHR ''_'' \<and> prev then py_digits False acc k cs
      else None)"

definition is_ascii :: "string \<Rightarrow> bool" where
  "is_ascii s = list_all (\<lambda>c. (of_char c :: nat) < 128) s"

definition over_limit :: "'d library \<Rightarrow> nat \<Rightarrow> bool" where
  "over_limit lib k = (640 < k \<and> 0 < int_max_str_digits lib \<and> int_max_str_digits lib < k)"

definition int_of_str :: "'d library \<Rightarrow> string \<Rightarrow> exn + int" where
  "int_of_str lib s =
     (if \<not> is_ascii s then int_non_ascii lib s
      else
        (let t = strip s;
             sign = (case t of c # r \<Rightarrow> if c = CHR ''-'' then - 1 else 1 | [] \<Rightarrow> 1);
             u = (case t of c # r \<Rightarrow> if c = CHR ''-'' \<or> c = CHR ''+'' then r else t | [] \<Rightarrow> t)
         in case py_digits False 0 0 u of
              None \<Rightarrow> Inl (ValueError (int_error_text lib (JStr s)))
            | Some (n, k) \<Rightarrow>
                if over_limit lib k then Inl (ValueError (int_error_text lib (JStr s)))
                else Inr (sign * n)))"

fun py_int :: "'d library \<Rightarrow> json \<Rightarrow> exn + int" where
  "py_int lib (JNum n) = Inr n"
| "py_int lib (JBool b) = Inr (if b then 1 else 0)"
| "py_int lib (JStr s) = int_of_str lib s"
| "py_int lib v = Inl (TypeError (int_error_text lib v))"

subsection \<open>\<^verbatim>\<open>if pd.isnull(x)\<close>\<close>

text \<open>
  \<open>JNull\<close> stands for both of pandas' missing values, \<^verbatim>\<open>None\<close> and \<^verbatim>\<open>NaN\<close>:
  \<^verbatim>\<open>pd.isnull\<close> is true of both, and false of every other scalar and of a dict.
\<close>

fun isnull :: "'d library \<Rightarrow> json \<Rightarrow> exn + bool" where
  "isnull lib JNull = Inr True"
| "isnull lib (JArr xs) = isnull_list lib xs"
| "isnull lib v = Inr False"

subsection \<open>\<^verbatim>\<open>row.get(key, default)\<close>\<close>

text \<open>
  On a row of \<^verbatim>\<open>df.iterrows()\<close>. A column that holds a str, a bool or a list has the
  type \<^verbatim>\<open>object\<close>, and its cells are the values of the records.
\<close>

definition row_get :: "'d library \<Rightarrow> dataframe \<Rightarrow> record_row \<Rightarrow> string \<Rightarrow> json \<Rightarrow> json" where
  "row_get lib df row key dflt =
     (if key \<in> set (columns df)
      then (case map_of row key of
              None \<Rightarrow> JNull
            | Some (JNum n) \<Rightarrow> number_cell lib df key n
            | Some v \<Rightarrow> v)
      else dflt)"

section \<open>The store\<close>

text \<open>
  Table \<^verbatim>\<open>LiveboardData\<close>. Its declaration is not part of the repository; the columns
  (\<open>db_station\<close> for \<^verbatim>\<open>station\<close>, and so on) hold the values bound to the statement
  as they are. \<open>'d\<close> is the type of
  \<^verbatim>\<open>datetime\<close> values.
\<close>

record 'd dbrow =
  db_station :: json
  db_vehicle :: json
  db_departure_time :: "'d option"
  db_platform :: json

type_synonym 'd params = "json \<times> json \<times> 'd option \<times> json"

text \<open>SQL \<^verbatim>\<open>=\<close> in a \<^verbatim>\<open>WHERE\<close> clause: a comparison with \<^verbatim>\<open>NULL\<close> does not hold.\<close>

definition sql_eq :: "json \<Rightarrow> json \<Rightarrow> bool" where
  "sql_eq a b = (a \<noteq> JNull \<and> b \<noteq> JNull \<and> a = b)"

definition sql_eq_dt :: "'d option \<Rightarrow> 'd option \<Rightarrow> bool" where
  "sql_eq_dt a b = (a \<noteq> None \<and> b \<noteq> None \<and> a = b)"

text \<open>
  \<^verbatim>\<open>SELECT 1 FROM LiveboardData WHERE station = ? AND vehicle = ? AND departure_time = ?\<close>
  returns a row.
\<close>

definition key_exists :: "'d dbrow list \<Rightarrow> json \<Rightarrow> json \<Rightarrow> 'd option \<Rightarrow> bool" where
  "key_exists t s v d =
     list_ex (\<lambda>r. sql_eq (db_station r) s \<and> sql_eq (db_vehicle r) v \<and>
                  sql_eq_dt (db_departure_time r) d) t"

text \<open>The statement of \<^verbatim>\<open>cursor.execute\<close>: \<^verbatim>\<open>IF NOT EXISTS (...) BEGIN INSERT ... END\<close>.\<close>

fun execute :: "'d dbrow list \<Rightarrow> 'd params \<Rightarrow> 'd dbrow list" where
  "execute t (s, v, d, p) =
     (if \<not> key_exists t s v d
      then t @ [\<lparr>db_station = s, db_vehicle = v, db_departure_time = d, db_platform = p\<rparr>]
      else t)"

text \<open>
  The driver and the server can fail at each call. A failure is the exception the call
  raises: of \<^verbatim>\<open>pyodbc.connect\<close>, of \<^verbatim>\<open>conn.cursor\<close>, of the \<open>i\<close>-th
  \<^verbatim>\<open>cursor.execute\<close> with its parameters, of \<^verbatim>\<open>conn.commit\<close>, and of the commit
  that leaving the \<^verbatim>\<open>with\<close> block performs.
\<close>

record 'd driver =
  connect_fault :: "string \<Rightarrow> exn option"
  cursor_fault :: "exn option"
  execute_fault :: "nat \<Rightarrow> 'd params \<Rightarrow> exn option"
  commit_fault :: "exn option"
  exit_fault :: "exn option"

text \<open>
  The world outside the process: its environment variables, the committed rows of the
  table, the driver, the answer of the upstream feed for a station (the parsed body, or
  the exception of \<^verbatim>\<open>requests.get\<close>, \<^verbatim>\<open>raise_for_status\<close> or \<^verbatim>\<open>response.json\<close>), and
  the stations requested so far.
\<close>

record 'd world =
  environ :: "(string \<times> string) list"
  table :: "'d dbrow list"
  driver :: "'d driver"
  upstream :: "json \<Rightarrow> exn + json"
  fetched :: "json list"

section \<open>\<^verbatim>\<open>insert_into_sql\<close>\<close>

text \<open>
  Lines 62 to 67. \<^verbatim>\<open>raw_time / 1000\<close> is true division: \<open>fromtimestamp\<close> receives the
  quotient.
\<close>

definition convert_time :: "'d library \<Rightarrow> json \<Rightarrow> exn + 'd option" where
  "convert_time lib raw_time =
     (case isnull lib raw_time of
        Inl e \<Rightarrow> Inl e
      | Inr True \<Rightarrow> Inr None
      | Inr False \<Rightarrow>
          (case py_int lib raw_time of
             Inl e \<Rightarrow> Inl e
           | Inr n \<Rightarrow>
               (case (if 10000000000 < n then fromtimestamp lib (of_int n / 1000)
                      else fromtimestamp lib (of_int n)) of
                  Inl e \<Rightarrow> Inl e
                | Inr dt \<Rightarrow> Inr (Some dt))))"

text \<open>
  Lines 62 to 71: the parameters bound to the statement for one row, in the order
  station, vehicle, departure time, platform.
\<close>

definition row_params :: "'d library \<Rightarrow> dataframe \<Rightarrow> record_row \<Rightarrow> exn + 'd params" where
  "row_params lib df row =
     (case convert_time lib (row_get lib df row ''time'' JNull) of
        Inl e \<Rightarrow> Inl e
      | Inr dt \<Rightarrow>
          Inr (row_get lib df row ''station'' (JStr ''''),
               row_get lib df row ''vehicle'' (JStr ''''),
               dt,
               row_get lib df row ''platform'' (JStr '''')))"

text \<open>
  The loop over \<^verbatim>\<open>df.iterrows()\<close>, on the rows of the open transaction; \<open>i\<close> counts
  the statements sent. An exception leaves the loop.
\<close>

fun insert_rows ::
  "'d library \<Rightarrow> 'd driver \<Rightarrow> dataframe \<Rightarrow> nat \<Rightarrow> 'd dbrow list \<Rightarrow> record_row list
     \<Rightarrow> exn + 'd dbrow list" where
  "insert_rows lib drv df i t [] = Inr t"
| "insert_rows lib drv df i t (row # rest) =
     (case row_params lib df row of
        Inl e \<Rightarrow> Inl e
      | Inr ps \<Rightarrow>
          (case execute_fault drv i ps of
             Some e \<Rightarrow> Inl e
           | None \<Rightarrow> insert_rows lib drv df (Suc i) (execute t ps) rest))"

definition done_msg :: string where
  "done_msg = ''Insertion termin'' @ [CHR 0xC3, CHR 0xA9] @ ''e sans doublons.''"

text \<open>
  The body of the \<^verbatim>\<open>try\<close>, lines 56 to 89: the world it leaves, and the exception it
  raises if any. The connection is not in autocommit mode. Leaving the \<^verbatim>\<open>with\<close>
  block by an exception rolls the transaction back, so the committed table is the one
  before the call; leaving it normally commits.
\<close>

definition try_block :: "'d library \<Rightarrow> 'd world \<Rightarrow> dataframe \<Rightarrow> 'd world \<times> exn option" where
  "try_block lib w df =
     (case map_of (environ w) ''SqlConnectionString'' of
        None \<Rightarrow> (w, Some (KeyError ''SqlConnectionString''))
      | Some conn_str \<Rightarrow>
          (case connect_fault (driver w) conn_str of
             Some e \<Rightarrow> (w, Some e)
           | None \<Rightarrow>
               (case cursor_fault (driver w) of
                  Some e \<Rightarrow> (w, Some e)
                | None \<Rightarrow>
                    (case insert_rows lib (driver w) df 0 (table w) df of
                       Inl e \<Rightarrow> (w, Some e)
                     | Inr t' \<Rightarrow>
                         (case commit_fault (driver w) of
                            Some e \<Rightarrow> (w, Some e)
                          | None \<Rightarrow> (w\<lparr>table := t'\<rparr>, exit_fault (driver w)))))))"

text \<open>Lines 54 to 95: the world after the call, and the pair returned.\<close>

definition insert_into_sql ::
  "'d library \<Rightarrow> 'd world \<Rightarrow> dataframe \<Rightarrow> 'd world \<times> bool \<times> string" where
  "insert_into_sql lib w df =
     (case try_block lib w df of
        (w', None) \<Rightarrow> (w', True, done_msg)
      | (w', Some e) \<Rightarrow> (w', False, str_exn e))"

section \<open>\<^verbatim>\<open>normalize_liveboard\<close>\<close>

text \<open>
  \<^verbatim>\<open>pd.json_normalize\<close> with its default arguments, as in pandas 2. A nested dict is
  flattened into dotted keys; \<open>normalized_dict[key_string] = data\<close> is \<open>AList.update\<close>.
  The key of a top-level field has no leading separator.
\<close>

definition new_key :: "string \<Rightarrow> string \<Rightarrow> string" where
  "new_key key_string key = (if key_string = [] then key else key_string @ ''.'' @ key)"

fun normalise_json :: "json \<Rightarrow> string \<Rightarrow> record_row \<Rightarrow> record_row" where
  "normalise_json (JObj kvs) key_string normalized_dict =
     fold (\<lambda>kv nd. normalise_json (snd kv) (new_key key_string (fst kv)) nd) kvs normalized_dict"
| "normalise_json v key_string normalized_dict = AList.update key_string v normalized_dict"

fun is_dict :: "json \<Rightarrow> bool" where
  "is_dict (JObj kvs) = True"
| "is_dict v = False"

text \<open>
  The fields that are not dicts come first, in their order; the flattened dicts follow
  (\<^verbatim>\<open>{**top_dict_, **nested_dict_}\<close>).
\<close>

definition normalise_json_ordered :: "(string \<times> json) list \<Rightarrow> record_row" where
  "normalise_json_ordered data =
     (let top_dict = filter (\<lambda>kv. \<not> is_dict (snd kv)) data;
          nested_dict = normalise_json (JObj (filter (\<lambda>kv. is_dict (snd kv)) data)) [] []
      in fold (\<lambda>kv d. AList.update (fst kv) (snd kv) d) nested_dict top_dict)"

text \<open>The items of a dict; nothing for any other value.\<close>

fun dict_items :: "json \<Rightarrow> (string \<times> json) list option" where
  "dict_items (JObj kvs) = Some kvs"
| "dict_items v = None"

text \<open>
  A list of dicts gives one record for each, in order, and the empty list the DataFrame
  without rows; a single dict gives one record. A list with another entry is left to
  the library. Anything else is refused.
\<close>

fun json_normalize :: "'d library \<Rightarrow> json \<Rightarrow> exn + dataframe" where
  "json_normalize lib (JArr ds) =
     (case those (map dict_items ds) of
        Some dicts \<Rightarrow> Inr (map normalise_json_ordered dicts)
      | None \<Rightarrow> non_dict_entries lib ds)"
| "json_normalize lib (JObj kvs) = Inr [normalise_json_ordered kvs]"
| "json_normalize lib v = Inl NotImplementedError"

definition normalize_liveboard :: "'d library \<Rightarrow> json \<Rightarrow> exn + dataframe" where
  "normalize_liveboard lib json_data =
     (case dict_get json_data ''departures'' (JObj []) of
        Inl e \<Rightarrow> Inl e
      | Inr d \<Rightarrow>
          (case dict_get d ''departure'' (JArr []) of
             Inl e \<Rightarrow> Inl e
           | Inr departures \<Rightarrow> json_normalize lib departures))"

section \<open>\<^verbatim>\<open>get_liveboard\<close>\<close>

definition default_station :: string where
  "default_station = ''Brussel-Zuid''"

text \<open>
  The argument is \<open>None\<close> when the caller omits it. The request goes out with the
  station; the world answers.
\<close>

definition get_liveboard :: "'d world \<Rightarrow> json option \<Rightarrow> 'd world \<times> (exn + json)" where
  "get_liveboard w arg =
     (let st = (case arg of None \<Rightarrow> JStr default_station | Some s \<Rightarrow> s)
      in (w\<lparr>fetched := fetched w @ [st]\<rparr>, upstream w st))"

section \<open>\<^verbatim>\<open>get_irail_data\<close>\<close>

text \<open>
  The request: its method (\<open>req_method\<close> for \<^verbatim>\<open>req.method\<close>), its query parameters and
  what \<^verbatim>\<open>req.get_json()\<close> returns (\<open>None\<close> when it raises). The body of a response is text or the rendering of the
  DataFrame; the rendering itself is not modelled.
\<close>

record request =
  req_method :: string
  params :: "(string \<times> string) list"
  get_json :: "json option"

datatype body = Text string | Csv dataframe | Json dataframe

record response =
  body :: body
  status_code :: nat
  mimetype :: string
  headers :: "(string \<times> string) list"

definition str_bool :: "bool \<Rightarrow> string" where
  "str_bool b = (if b then ''True'' else ''False'')"

text \<open>Lines 105 to 107: \<open>station\<close>, \<open>response_format\<close>, \<open>write_to_sql\<close> of the query string.\<close>

definition query_params :: "request \<Rightarrow> json \<times> string \<times> bool" where
  "query_params req =
     ((case map_of (params req) ''station'' of None \<Rightarrow> JNull | Some s \<Rightarrow> JStr s),
      map lower_char (case map_of (params req) ''format'' of None \<Rightarrow> ''csv'' | Some f \<Rightarrow> f),
      map lower_char (case map_of (params req) ''sql'' of None \<Rightarrow> ''true'' | Some s \<Rightarrow> s)
        = ''true'')"

text \<open>Lines 116 to 119: the handler of the inner \<^verbatim>\<open>try\<close>, on the variables as they are.\<close>

definition no_valid_json :: "json \<times> string \<times> bool \<Rightarrow> json \<times> string \<times> bool" where
  "no_valid_json vars =
     (case vars of (station, response_format, write_to_sql) \<Rightarrow>
        (if \<not> truthy station then JStr default_station else station,
         response_format, write_to_sql))"

text \<open>
  Lines 111 to 115. Each assignment takes effect before the next line runs; an exception
  on any line goes to the inner handler with the assignments made so far.
\<close>

definition body_params :: "request \<Rightarrow> json \<times> string \<times> bool \<Rightarrow> json \<times> string \<times> bool" where
  "body_params req vars =
     (case vars of (station, response_format, write_to_sql) \<Rightarrow>
        (case get_json req of
           None \<Rightarrow> no_valid_json (station, response_format, write_to_sql)
         | Some req_body \<Rightarrow>
             (case dict_get req_body ''station'' (py_or station (JStr default_station)) of
                Inl e \<Rightarrow> no_valid_json (station, response_format, write_to_sql)
              | Inr station1 \<Rightarrow>
                  (case dict_get req_body ''format'' (JStr response_format) of
                     Inl e \<Rightarrow> no_valid_json (station1, response_format, write_to_sql)
                   | Inr f \<Rightarrow>
                       (case lower f of
                          Inl e \<Rightarrow> no_valid_json (station1, response_format, write_to_sql)
                        | Inr response_format1 \<Rightarrow>
                            (case dict_get req_body ''sql'' (JStr (str_bool write_to_sql)) of
                               Inl e \<Rightarrow> no_valid_json (station1, response_format1, write_to_sql)
                             | Inr s \<Rightarrow>
                                 (case lower s of
                                    Inl e \<Rightarrow>
                                      no_valid_json (station1, response_format1, write_to_sql)
                                  | Inr s1 \<Rightarrow>
                                      (station1, response_format1, s1 = ''true''))))))))"

text \<open>Lines 105 to 121: the three variables when the fetch starts.\<close>

definition resolve_params :: "request \<Rightarrow> json \<times> string \<times> bool" where
  "resolve_params req =
     (case (if req_method req = ''POST'' then body_params req (query_params req)
            else query_params req) of
        (station, response_format, write_to_sql) \<Rightarrow>
          (py_or station (JStr default_station), response_format, write_to_sql))"

definition not_found_msg :: string where
  "not_found_msg =
     ''Aucun d'' @ [CHR 0xC3, CHR 0xA9] @ ''part trouv'' @ [CHR 0xC3, CHR 0xA9] @ ''.''"

definition text_response :: "string \<Rightarrow> nat \<Rightarrow> response" where
  "text_response s code =
     \<lparr>body = Text s, status_code = code, mimetype = ''text/plain'', headers = []\<rparr>"

text \<open>Lines 157 to 161: the handler of the outer \<^verbatim>\<open>try\<close>.\<close>

definition server_error :: "exn \<Rightarrow> response" where
  "server_error e = text_response (''Server error : '' @ str_exn e) 500"

definition replace_space :: "string \<Rightarrow> string" where
  "replace_space s = map (\<lambda>c. if c = CHR '' '' then CHR ''_'' else c) s"

text \<open>Lines 136 to 155. \<^verbatim>\<open>station.replace\<close> exists on a str only.\<close>

definition render :: "json \<Rightarrow> string \<Rightarrow> dataframe \<Rightarrow> response" where
  "render station response_format df =
     (if response_format = ''json''
      then \<lparr>body = Json df, status_code = 200, mimetype = ''application/json'', headers = []\<rparr>
      else (case station of
              JStr s \<Rightarrow>
                \<lparr>body = Csv df, status_code = 200, mimetype = ''text/csv'',
                 headers = [(''Content-Disposition'',
                             ''attachment; filename=liveboard_'' @ replace_space s @ ''.csv'')]\<rparr>
            | v \<Rightarrow> server_error (AttributeError (type_name v) ''replace'')))"

text \<open>Lines 124 to 155, from the resolved variables on.\<close>

definition respond ::
  "'d library \<Rightarrow> 'd world \<Rightarrow> json \<times> string \<times> bool \<Rightarrow> 'd world \<times> response" where
  "respond lib w vars =
     (case vars of (station, response_format, write_to_sql) \<Rightarrow>
        (case get_liveboard w (Some station) of
           (w1, Inl e) \<Rightarrow> (w1, server_error e)
         | (w1, Inr json_data) \<Rightarrow>
             (case normalize_liveboard lib json_data of
                Inl e \<Rightarrow> (w1, server_error e)
              | Inr df \<Rightarrow>
                  if empty df then (w1, text_response not_found_msg 404)
                  else if write_to_sql
                  then (case insert_into_sql lib w1 df of
                          (w2, success, msg) \<Rightarrow>
                            if \<not> success then (w2, text_response (''Erreur SQL : '' @ msg) 500)
                            else (w2, render station response_format df))
                  else (w1, render station response_format df))))"

definition get_irail_data :: "'d library \<Rightarrow> 'd world \<Rightarrow> request \<Rightarrow> 'd world \<times> response" where
  "get_irail_data lib w req = respond lib w (resolve_params req)"

section \<open>The fields of an entry\<close>

text \<open>
  What the records are compared with. The leaves of a JSON value are its values that are
  not dicts, each with the path of keys that leads to it, joined by dots. The fields of
  an entry are its own values that are not dicts, followed by the leaves of its values
  that are.
\<close>

fun leaves :: "string \<Rightarrow> json \<Rightarrow> (string \<times> json) list" where
  "leaves path (JObj kvs) =
     concat (map (\<lambda>kv. leaves (new_key path (fst kv)) (snd kv)) kvs)"
| "leaves path v = [(path, v)]"

definition flat_fields :: "(string \<times> json) list \<Rightarrow> (string \<times> json) list" where
  "flat_fields items =
     filter (\<lambda>kv. \<not> is_dict (snd kv)) items @
     leaves [] (JObj (filter (\<lambda>kv. is_dict (snd kv)) items))"

section \<open>Concrete instances\<close>

text \<open>
  For the concrete runs below a datetime is the number of seconds it stands for, the
  digit limit is the default one, an integer cell is handed back as it is, the driver
  never fails unless said otherwise, the connection string is set and the table starts
  empty. The runs read ASCII strings of digits as times and lists of dicts as entries,
  so the other parts of the library are not reached; they are set to raise.
\<close>

definition exact_library :: "rat library" where
  "exact_library =
     \<lparr>fromtimestamp = (\<lambda>t. Inr t),
      int_non_ascii = (\<lambda>s. Inl (ValueError '''')),
      int_max_str_digits = 4300,
      int_error_text = (\<lambda>v. ''''),
      isnull_list = (\<lambda>xs. Inl (ValueError '''')),
      number_cell = (\<lambda>df key n. JNum n),
      non_dict_entries = (\<lambda>ds. Inl (TypeError ''''))\<rparr>"

definition no_faults :: "rat driver" where
  "no_faults =
     \<lparr>connect_fault = (\<lambda>c. None), cursor_fault = None, execute_fault = (\<lambda>i ps. None),
      commit_fault = None, exit_fault = None\<rparr>"

text \<open>
  The fields of a departure: flat ones, and ones shaped as the feed sends them, with the
  station and the vehicle described by nested objects.
\<close>

definition entry :: "string \<Rightarrow> string \<Rightarrow> (string \<times> json) list" where
  "entry vehicle_id platform_no =
     [(''station'', JStr ''Brussel-Zuid''), (''vehicle'', JStr vehicle_id),
      (''time'', JStr ''1698937200''), (''platform'', JStr platform_no)]"

definition entry_without_time :: "(string \<times> json) list" where
  "entry_without_time =
     [(''station'', JStr ''Brussel-Zuid''), (''vehicle'', JStr ''BE.NMBS.IC1234''),
      (''platform'', JStr ''5'')]"

definition entry_at :: "string \<Rightarrow> (string \<times> json) list" where
  "entry_at time =
     [(''station'', JStr ''Brussel-Zuid''), (''vehicle'', JStr ''BE.NMBS.IC1234''),
      (''time'', JStr time), (''platform'', JStr ''5'')]"

definition feed_entry :: "(string \<times> json) list" where
  "feed_entry =
     [(''id'', JStr ''0''),
      (''station'', JStr ''Antwerpen-Centraal''),
      (''stationinfo'', JObj [(''id'', JStr ''BE.NMBS.008821006''),
                              (''name'', JStr ''Antwerpen-Centraal'')]),
      (''time'', JStr ''1698937200''),
      (''delay'', JNum 60),
      (''vehicle'', JStr ''BE.NMBS.IC1234''),
      (''vehicleinfo'', JObj [(''name'', JStr ''BE.NMBS.IC1234''),
                              (''shortname'', JStr ''IC 1234'')]),
      (''platform'', JStr ''5''),
      (''platforminfo'', JObj [(''name'', JStr ''5''), (''normal'', JStr ''1'')])]"

definition payload :: "(string \<times> json) list list \<Rightarrow> json" where
  "payload entries = JObj [(''departures'', JObj [(''departure'', JArr (map JObj entries))])]"

definition demo_world :: "rat world" where
  "demo_world =
     \<lparr>environ = [(''SqlConnectionString'', ''Driver=x'')], table = [], driver = no_faults,
      upstream = (\<lambda>st. Inr (payload [entry ''BE.NMBS.IC1234'' ''5''])), fetched = []\<rparr>"

definition fails_at :: "nat \<Rightarrow> exn \<Rightarrow> rat driver" where
  "fails_at k e = no_faults\<lparr>execute_fault := (\<lambda>i ps. if i = k then Some e else None)\<rparr>"

definition stored_row :: "string \<Rightarrow> rat option \<Rightarrow> string \<Rightarrow> rat dbrow" where
  "stored_row vehicle_id dt platform_no =
     \<lparr>db_station = JStr ''Brussel-Zuid'', db_vehicle = JStr vehicle_id,
      db_departure_time = dt, db_platform = JStr platform_no\<rparr>"

text \<open>The number of rows of the table with a given key, all three parts of it present.\<close>

definition rows_with_key :: "'d dbrow list \<Rightarrow> json \<Rightarrow> json \<Rightarrow> 'd \<Rightarrow> nat" where
  "rows_with_key t s v d =
     length (filter (\<lambda>r. db_station r = s \<and> db_vehicle r = v \<and> db_departure_time r = Some d) t)"

section \<open>Properties of the store operation\<close>

lemmas run_defs =
  int_of_str_def strip_def is_space_def is_digit_def digit_val_def is_ascii_def over_limit_def
  exact_library_def row_get_def columns_def row_params_def key_exists_def sql_eq_def
  sql_eq_dt_def no_faults_def demo_world_def entry_def normalise_json_ordered_def new_key_def
  payload_def

lemma insert_rows_append:
  "insert_rows lib drv df i t (pre @ rest) =
     (case insert_rows lib drv df i t pre of
        Inl e \<Rightarrow> Inl e
      | Inr t1 \<Rightarrow> insert_rows lib drv df (i + length pre) t1 rest)"
  by (induction pre arbitrary: i t) (auto split: sum.splits option.splits)

lemma execute_prefix: "prefix t (execute t ps)"
  by (cases ps) simp

lemma insert_rows_prefix: "insert_rows lib drv df i t rows = Inr t' \<Longrightarrow> prefix t t'"
proof (induction rows arbitrary: i t)
  case Nil
  then show ?case by simp
next
  case (Cons row rest)
  from Cons.prems obtain ps where
    ps: "row_params lib df row = Inr ps"
    and rest: "insert_rows lib drv df (Suc i) (execute t ps) rest = Inr t'"
    by (auto split: sum.splits option.splits)
  have "prefix (execute t ps) t'"
    using Cons.IH rest by blast
  with execute_prefix [of t ps] show ?case
    using prefix_order.trans by blast
qed

lemma insert_rows_present:
  assumes "\<forall>row \<in> set rows. \<exists>s v d p. row_params lib df row = Inr (s, v, d, p) \<and> key_exists t s v d"
    and "insert_rows lib drv df i t rows = Inr t'"
  shows "t' = t"
  using assms
proof (induction rows arbitrary: i)
  case Nil
  then show ?case by simp
next
  case (Cons row rest)
  from Cons.prems(1) obtain s v d p where
    ps: "row_params lib df row = Inr (s, v, d, p)" and ex: "key_exists t s v d"
    by auto
  from ex have same: "execute t (s, v, d, p) = t"
    by simp
  from Cons.prems(2) ps same have "insert_rows lib drv df (Suc i) t rest = Inr t'"
    by (auto split: option.splits)
  with Cons.IH Cons.prems(1) show ?case
    by simp
qed

lemma try_block_table:
  "table (fst (try_block lib w df)) = table w \<or>
   insert_rows lib (driver w) df 0 (table w) df = Inr (table (fst (try_block lib w df)))"
  by (auto simp: try_block_def split: option.splits sum.splits)


lemma insert_into_sql_fst: "fst (insert_into_sql lib w df) = fst (try_block lib w df)"
  by (auto simp: insert_into_sql_def split: prod.splits option.splits)

lemma insert_into_sql_success:
  assumes "insert_into_sql lib w df = (w', True, m)"
  shows "insert_rows lib (driver w) df 0 (table w) df = Inr (table w')"
  using assms
  by (auto simp: insert_into_sql_def try_block_def split: option.splits sum.splits)

text \<open>
  Where the key has no \<^verbatim>\<open>NULL\<close> the check does its work. With at most one row for the
  key before, two successful calls of which the first holds a record with that key leave
  exactly one row for it.
\<close>

lemma key_exists_rows_with_key:
  assumes "s \<noteq> JNull" and "v \<noteq> JNull"
  shows "key_exists t s v (Some d) \<longleftrightarrow> 0 < rows_with_key t s v d"
proof -
  have "0 < rows_with_key t s v d \<longleftrightarrow>
        (\<exists>r \<in> set t. db_station r = s \<and> db_vehicle r = v \<and> db_departure_time r = Some d)"
    by (auto simp: rows_with_key_def filter_empty_conv)
  with assms show ?thesis
    by (auto simp: key_exists_def list_ex_iff sql_eq_def sql_eq_dt_def)
qed

lemma execute_rows_with_key_le:
  assumes "s \<noteq> JNull" and "v \<noteq> JNull" and "rows_with_key t s v d \<le> 1"
  shows "rows_with_key (execute t ps) s v d \<le> 1"
proof -
  obtain s' v' d' p' where ps: "ps = (s', v', d', p')"
    by (cases ps) auto
  show ?thesis
  proof (cases "s' = s \<and> v' = v \<and> d' = Some d")
    case True
    with assms ps key_exists_rows_with_key [of s v t d] show ?thesis
      by (auto simp: rows_with_key_def)
  next
    case False
    with assms(3) ps show ?thesis
      by (auto simp: rows_with_key_def)
  qed
qed

lemma execute_rows_with_key_mono:
  "rows_with_key t s v d \<le> rows_with_key (execute t ps) s v d"
  by (cases ps) (simp add: rows_with_key_def)

lemma execute_rows_with_key_pos:
  assumes "s \<noteq> JNull" and "v \<noteq> JNull"
  shows "0 < rows_with_key (execute t (s, v, Some d, p)) s v d"
proof (cases "key_exists t s v (Some d)")
  case True
  with assms key_exists_rows_with_key [of s v t d] show ?thesis
    by simp
next
  case False
  then show ?thesis
    by (simp add: rows_with_key_def)
qed

lemma insert_rows_rows_with_key_le:
  assumes "s \<noteq> JNull" and "v \<noteq> JNull"
    and "rows_with_key t s v d \<le> 1"
    and "insert_rows lib drv df i t rows = Inr t'"
  shows "rows_with_key t' s v d \<le> 1"
  using assms(3,4)
proof (induction rows arbitrary: i t)
  case Nil
  then show ?case by simp
next
  case (Cons row rest)
  from Cons.prems(2) obtain ps where
    rest: "insert_rows lib drv df (Suc i) (execute t ps) rest = Inr t'"
    by (auto split: sum.splits option.splits)
  from assms(1,2) Cons.prems(1) have "rows_with_key (execute t ps) s v d \<le> 1"
    by (rule execute_rows_with_key_le)
  with rest show ?case
    by (rule Cons.IH [rotated])
qed

lemma insert_rows_rows_with_key_mono:
  assumes "insert_rows lib drv df i t rows = Inr t'"
  shows "rows_with_key t s v d \<le> rows_with_key t' s v d"
  using assms
proof (induction rows arbitrary: i t)
  case Nil
  then show ?case by simp
next
  case (Cons row rest)
  from Cons.prems obtain ps where
    rest: "insert_rows lib drv df (Suc i) (execute t ps) rest = Inr t'"
    by (auto split: sum.splits option.splits)
  from Cons.IH [OF rest] execute_rows_with_key_mono [of t s v d ps] show ?case
    by simp
qed

lemma insert_rows_rows_with_key_pos:
  assumes "s \<noteq> JNull" and "v \<noteq> JNull"
    and "row \<in> set rows" and "row_params lib df row = Inr (s, v, Some d, p)"
    and "insert_rows lib drv df i t rows = Inr t'"
  shows "0 < rows_with_key t' s v d"
  using assms(3,5)
proof (induction rows arbitrary: i t)
  case Nil
  then show ?case by simp
next
  case (Cons r rest)
  from Cons.prems(2) obtain ps where
    ps: "row_params lib df r = Inr ps"
    and rest: "insert_rows lib drv df (Suc i) (execute t ps) rest = Inr t'"
    by (auto split: sum.splits option.splits)
  show ?case
  proof (cases "r = row")
    case True
    with ps assms(4) have "ps = (s, v, Some d, p)"
      by simp
    with execute_rows_with_key_pos [OF assms(1,2), of t d p]
    have "0 < rows_with_key (execute t ps) s v d"
      by (simp only:)
    with insert_rows_rows_with_key_mono [OF rest, of s v d] show ?thesis
      by simp
  next
    case False
    with Cons.prems(1) have "row \<in> set rest"
      by simp
    from Cons.IH [OF this rest] show ?thesis .
  qed
qed

lemma non_null_key_exactly_once:
  assumes "s \<noteq> JNull" and "v \<noteq> JNull"
    and "rows_with_key (table w) s v d \<le> 1"
    and "insert_into_sql lib w df1 = (w1, True, m1)"
    and "insert_into_sql lib w1 df2 = (w2, True, m2)"
    and "row \<in> set df1" and "row_params lib df1 row = Inr (s, v, Some d, p)"
  shows "rows_with_key (table w2) s v d = 1"
proof -
  note first = insert_into_sql_success [OF assms(4)]
  note second = insert_into_sql_success [OF assms(5)]
  from assms(1,2,3) first have le1: "rows_with_key (table w1) s v d \<le> 1"
    by (rule insert_rows_rows_with_key_le)
  from assms(1,2) le1 second have le2: "rows_with_key (table w2) s v d \<le> 1"
    by (rule insert_rows_rows_with_key_le)
  from assms(1,2,6,7) first have "0 < rows_with_key (table w1) s v d"
    by (rule insert_rows_rows_with_key_pos)
  with insert_rows_rows_with_key_mono [OF second, of s v d]
  have "0 < rows_with_key (table w2) s v d"
    by simp
  with le2 show ?thesis
    by simp
qed

text \<open>
  C1. Two sequential calls with the same identity key leave exactly one row for it. The
  code breaks this for a record without a time: its departure time is \<^verbatim>\<open>NULL\<close>, the
  existence check compares with \<^verbatim>\<open>=\<close>, and the second call inserts the row again. Both
  calls succeed and the table holds two identical rows, whatever the libraries do: the
  record has no time to convert and its other fields are strings.
\<close>

theorem null_departure_time_inserted_twice:
  "insert_into_sql lib demo_world [normalise_json_ordered entry_without_time]
     = (demo_world\<lparr>table := [stored_row ''BE.NMBS.IC1234'' None ''5'']\<rparr>, True, done_msg) \<and>
   insert_into_sql lib
       (demo_world\<lparr>table := [stored_row ''BE.NMBS.IC1234'' None ''5'']\<rparr>)
       [normalise_json_ordered entry_without_time]
     = (demo_world\<lparr>table := [stored_row ''BE.NMBS.IC1234'' None ''5'',
                               stored_row ''BE.NMBS.IC1234'' None ''5'']\<rparr>, True, done_msg)"
  by (simp add: run_defs entry_without_time_def stored_row_def convert_time_def try_block_def
      insert_into_sql_def)

text \<open>
  What a statement leaves in the table: a row with the station, the vehicle and the
  departure time bound to it, the one it found or the one it inserted. The rows stay
  until the commit.
\<close>

lemma execute_stores:
  "\<exists>r \<in> set (execute t (s, v, d, p)).
     db_station r = s \<and> db_vehicle r = v \<and> db_departure_time r = d"
  by (auto simp: key_exists_def list_ex_iff sql_eq_def sql_eq_dt_def)

lemma insert_rows_stores:
  assumes "insert_rows lib drv df i t rows = Inr t'" and "row \<in> set rows"
  shows "\<exists>s v d p. row_params lib df row = Inr (s, v, d, p) \<and>
           (\<exists>r \<in> set t'. db_station r = s \<and> db_vehicle r = v \<and> db_departure_time r = d)"
  using assms
proof (induction rows arbitrary: i t)
  case Nil
  then show ?case by simp
next
  case (Cons r0 rest)
  from Cons.prems(1) obtain ps where
    ps: "row_params lib df r0 = Inr ps"
    and rest: "insert_rows lib drv df (Suc i) (execute t ps) rest = Inr t'"
    by (auto split: sum.splits option.splits)
  show ?case
  proof (cases "r0 = row")
    case True
    obtain s v d p where eq: "ps = (s, v, d, p)"
      by (cases ps) auto
    from execute_stores [of t s v d p] obtain r where
      r: "r \<in> set (execute t (s, v, d, p))"
      and key: "db_station r = s \<and> db_vehicle r = v \<and> db_departure_time r = d"
      by blast
    from insert_rows_prefix [OF rest] eq have "set (execute t (s, v, d, p)) \<subseteq> set t'"
      by (simp only: set_mono_prefix)
    with r have "r \<in> set t'"
      by blast
    with key ps eq True show ?thesis
      by blast
  next
    case False
    with Cons.prems(2) have "row \<in> set rest"
      by simp
    from Cons.IH [OF rest this] show ?thesis .
  qed
qed

lemma convert_time_cases:
  assumes "convert_time lib raw = Inr d"
  shows "(isnull lib raw = Inr True \<and> d = None) \<or>
         (\<exists>e dt. isnull lib raw = Inr False \<and> py_int lib raw = Inr e \<and> d = Some dt \<and>
                  (10 ^ 10 < e \<longrightarrow> fromtimestamp lib (of_int e / 1000) = Inr dt) \<and>
                  (e \<le> 10 ^ 10 \<longrightarrow> fromtimestamp lib (of_int e) = Inr dt))"
  using assms
  by (auto simp: convert_time_def split: sum.splits bool.splits if_splits)

lemma row_get_absent:
  assumes "key \<notin> set (columns df) \<or> map_of row key = None \<or> map_of row key = Some JNull"
  shows "row_get lib df row key JNull = JNull"
  using assms by (auto simp: row_get_def)

text \<open>
  C2. After a successful call the table holds, for every record of the batch, a row with
  the station and the vehicle of the record and the departure time derived from its raw
  time, the value of \<^verbatim>\<open>row.get("time")\<close>. The stored time is null when the column is
  absent or the cell is null. Otherwise \<^verbatim>\<open>int(raw_time)\<close> is an integer \<open>e\<close>, and the
  stored time is the timestamp of \<open>e / 1000\<close> seconds when \<open>e\<close> exceeds \<open>10\<^sup>1\<^sup>0\<close> and of
  \<open>e\<close> seconds when it does not.
\<close>

theorem departure_time_stored:
  assumes "insert_into_sql lib w df = (w', True, m)" and "row \<in> set df"
  shows "\<exists>r \<in> set (table w').
           db_station r = row_get lib df row ''station'' (JStr '''') \<and>
           db_vehicle r = row_get lib df row ''vehicle'' (JStr '''') \<and>
           (''time'' \<notin> set (columns df) \<or> map_of row ''time'' = None \<or>
            map_of row ''time'' = Some JNull \<or>
            isnull lib (row_get lib df row ''time'' JNull) = Inr True
              \<longrightarrow> db_departure_time r = None) \<and>
           (isnull lib (row_get lib df row ''time'' JNull) = Inr True \<or>
            (\<exists>e. isnull lib (row_get lib df row ''time'' JNull) = Inr False \<and>
                  py_int lib (row_get lib df row ''time'' JNull) = Inr e)) \<and>
           (\<forall>e. isnull lib (row_get lib df row ''time'' JNull) = Inr False \<and>
                 py_int lib (row_get lib df row ''time'' JNull) = Inr e \<and> 10 ^ 10 < e
                   \<longrightarrow> (\<exists>dt. fromtimestamp lib (of_int e / 1000) = Inr dt \<and>
                             db_departure_time r = Some dt)) \<and>
           (\<forall>e. isnull lib (row_get lib df row ''time'' JNull) = Inr False \<and>
                 py_int lib (row_get lib df row ''time'' JNull) = Inr e \<and> e \<le> 10 ^ 10
                   \<longrightarrow> (\<exists>dt. fromtimestamp lib (of_int e) = Inr dt \<and>
                             db_departure_time r = Some dt))"
proof -
  let ?raw = "row_get lib df row ''time'' JNull"
  from insert_rows_stores [OF insert_into_sql_success [OF assms(1)] assms(2)]
  obtain s v d p r where
    ps: "row_params lib df row = Inr (s, v, d, p)"
    and r: "r \<in> set (table w')"
    and key: "db_station r = s" "db_vehicle r = v" "db_departure_time r = d"
    by blast
  from ps have s: "s = row_get lib df row ''station'' (JStr '''')"
    and v: "v = row_get lib df row ''vehicle'' (JStr '''')"
    and d: "convert_time lib ?raw = Inr d"
    by (auto simp: row_params_def split: sum.splits)
  have null: "isnull lib ?raw = Inr True"
    if "''time'' \<notin> set (columns df) \<or> map_of row ''time'' = None \<or>
        map_of row ''time'' = Some JNull"
    using row_get_absent [OF that, of lib] by simp
  from convert_time_cases [OF d] null key s v
  have "db_station r = row_get lib df row ''station'' (JStr '''') \<and>
        db_vehicle r = row_get lib df row ''vehicle'' (JStr '''') \<and>
        (''time'' \<notin> set (columns df) \<or> map_of row ''time'' = None \<or>
         map_of row ''time'' = Some JNull \<or> isnull lib ?raw = Inr True
           \<longrightarrow> db_departure_time r = None) \<and>
        (isnull lib ?raw = Inr True \<or>
         (\<exists>e. isnull lib ?raw = Inr False \<and> py_int lib ?raw = Inr e)) \<and>
        (\<forall>e. isnull lib ?raw = Inr False \<and> py_int lib ?raw = Inr e \<and> 10 ^ 10 < e
                \<longrightarrow> (\<exists>dt. fromtimestamp lib (of_int e / 1000) = Inr dt \<and>
                          db_departure_time r = Some dt)) \<and>
        (\<forall>e. isnull lib ?raw = Inr False \<and> py_int lib ?raw = Inr e \<and> e \<le> 10 ^ 10
                \<longrightarrow> (\<exists>dt. fromtimestamp lib (of_int e) = Inr dt \<and>
                          db_departure_time r = Some dt))"
    by auto
  with r show ?thesis
    by blast
qed

theorem departure_time_stored_witness:
  "insert_into_sql exact_library demo_world [normalise_json_ordered (entry_at ''1698937200000'')]
     = (demo_world\<lparr>table := [stored_row ''BE.NMBS.IC1234'' (Some 1698937200) ''5'']\<rparr>,
        True, done_msg) \<and>
   py_int exact_library (JStr ''1698937200000'') = Inr 1698937200000 \<and>
   db_departure_time (stored_row ''BE.NMBS.IC1234'' (Some 1698937200) ''5'')
     = Some (1698937200000 / 1000) \<and>
   insert_into_sql exact_library demo_world [normalise_json_ordered (entry_at ''1698937200'')]
     = (demo_world\<lparr>table := [stored_row ''BE.NMBS.IC1234'' (Some 1698937200) ''5'']\<rparr>,
        True, done_msg) \<and>
   py_int exact_library (JStr ''1698937200'') = Inr 1698937200 \<and>
   insert_into_sql exact_library demo_world [normalise_json_ordered entry_without_time]
     = (demo_world\<lparr>table := [stored_row ''BE.NMBS.IC1234'' None ''5'']\<rparr>, True, done_msg)"
proof -
  let ?ms = "normalise_json_ordered (entry_at ''1698937200000'')"
  let ?s = "normalise_json_ordered (entry_at ''1698937200'')"
  let ?n = "normalise_json_ordered entry_without_time"
  let ?t = "[stored_row ''BE.NMBS.IC1234'' (Some 1698937200) ''5'']"
  have ms: "insert_into_sql exact_library demo_world [?ms]
              = (demo_world\<lparr>table := ?t\<rparr>, True, done_msg)"
    by (simp add: run_defs entry_at_def stored_row_def convert_time_def try_block_def
        insert_into_sql_def)
  have s: "insert_into_sql exact_library demo_world [?s]
             = (demo_world\<lparr>table := ?t\<rparr>, True, done_msg)"
    by (simp add: run_defs entry_at_def stored_row_def convert_time_def try_block_def
        insert_into_sql_def)
  have n: "insert_into_sql exact_library demo_world [?n]
             = (demo_world\<lparr>table := [stored_row ''BE.NMBS.IC1234'' None ''5'']\<rparr>,
                True, done_msg)"
    by (simp add: run_defs entry_without_time_def stored_row_def convert_time_def try_block_def
        insert_into_sql_def)
  have ms_int: "py_int exact_library (JStr ''1698937200000'') = Inr 1698937200000"
    by (simp add: run_defs)
  have s_int: "py_int exact_library (JStr ''1698937200'') = Inr 1698937200"
    by (simp add: run_defs)
  have ms_raw: "row_get exact_library [?ms] ?ms ''time'' JNull = JStr ''1698937200000''"
    by (simp add: run_defs entry_at_def)
  have "?ms \<in> set [?ms]"
    by simp
  from departure_time_stored [OF ms this] ms_raw ms_int
  have "db_departure_time (stored_row ''BE.NMBS.IC1234'' (Some 1698937200) ''5'')
          = Some (1698937200000 / 1000)"
    by (simp add: exact_library_def)
  with ms s n ms_int s_int show ?thesis
    by (simp only: simp_thms)
qed

text \<open>
  C3. One transaction, one commit after the loop: when the row at some position of the
  batch fails, in its conversion or in its statement, after the rows before it went
  through, the call reports failure and the committed table is the one before the call.
\<close>

theorem mid_loop_failure_commits_nothing:
  assumes "df = pre @ row # post"
    and "insert_rows lib (driver w) df 0 (table w) pre = Inr t1"
    and "row_params lib df row = Inl e \<or>
         (\<exists>ps. row_params lib df row = Inr ps \<and>
               execute_fault (driver w) (length pre) ps = Some e)"
  shows "table (fst (insert_into_sql lib w df)) = table w \<and>
         \<not> fst (snd (insert_into_sql lib w df))"
proof -
  have "insert_rows lib (driver w) df 0 (table w) df = Inl e"
    using assms by (auto simp: insert_rows_append)
  then show ?thesis
    by (auto simp: insert_into_sql_def try_block_def split: option.splits sum.splits)
qed

theorem mid_loop_failure_commits_nothing_witness:
  "insert_rows exact_library (fails_at 1 (LibraryError ''deadlock''))
     (map normalise_json_ordered [entry ''IC1'' ''5'', entry ''IC2'' ''6'']) 0 []
     [normalise_json_ordered (entry ''IC1'' ''5'')]
     = Inr [stored_row ''IC1'' (Some 1698937200) ''5''] \<and>
   table (fst (insert_into_sql exact_library
                 (demo_world\<lparr>driver := fails_at 1 (LibraryError ''deadlock'')\<rparr>)
                 (map normalise_json_ordered [entry ''IC1'' ''5'', entry ''IC2'' ''6''])))
     = [] \<and>
   \<not> fst (snd (insert_into_sql exact_library
                 (demo_world\<lparr>driver := fails_at 1 (LibraryError ''deadlock'')\<rparr>)
                 (map normalise_json_ordered [entry ''IC1'' ''5'', entry ''IC2'' ''6''])))"
proof -
  let ?w = "demo_world\<lparr>driver := fails_at 1 (LibraryError ''deadlock'')\<rparr>"
  let ?r1 = "normalise_json_ordered (entry ''IC1'' ''5'')"
  let ?r2 = "normalise_json_ordered (entry ''IC2'' ''6'')"
  let ?df = "map normalise_json_ordered [entry ''IC1'' ''5'', entry ''IC2'' ''6'']"
  have split: "?df = [?r1] @ ?r2 # []"
    by simp
  have before: "insert_rows exact_library (driver ?w) ?df 0 (table ?w) [?r1]
                  = Inr [stored_row ''IC1'' (Some 1698937200) ''5'']"
    by (simp add: run_defs fails_at_def stored_row_def convert_time_def)
  have fails: "row_params exact_library ?df ?r2 = Inl (LibraryError ''deadlock'') \<or>
        (\<exists>ps. row_params exact_library ?df ?r2 = Inr ps \<and>
              execute_fault (driver ?w) (length [?r1]) ps = Some (LibraryError ''deadlock''))"
    by (simp add: run_defs fails_at_def stored_row_def convert_time_def)
  have tbl: "table ?w = []" and drv: "driver ?w = fails_at 1 (LibraryError ''deadlock'')"
    by (simp_all add: demo_world_def)
  from mid_loop_failure_commits_nothing [OF split before fails] before
  show ?thesis
    by (simp only: tbl drv simp_thms)
qed

text \<open>
  C4, as stated: on success the operation returns the count of rows processed. It does
  not: a batch of one row and a batch of two rows both return the same pair, the flag
  \<open>True\<close> and a fixed message.
\<close>

theorem success_returns_no_count:
  "length (map normalise_json_ordered [entry ''IC1'' ''5'']) = 1 \<and>
   snd (insert_into_sql exact_library demo_world
          (map normalise_json_ordered [entry ''IC1'' ''5''])) = (True, done_msg) \<and>
   length (map normalise_json_ordered [entry ''IC1'' ''5'', entry ''IC2'' ''6'']) = 2 \<and>
   snd (insert_into_sql exact_library demo_world
          (map normalise_json_ordered [entry ''IC1'' ''5'', entry ''IC2'' ''6''])) = (True, done_msg)"
  by (simp add: run_defs convert_time_def try_block_def insert_into_sql_def)

text \<open>
  C4, amended. The operation returns a flag and a text. When the \<^verbatim>\<open>try\<close> block ends
  without an exception the pair is \<open>True\<close> and the fixed message, whatever the rows
  were; when it raises \<open>e\<close> the pair is \<open>False\<close> and \<^verbatim>\<open>str(e)\<close>. A failure of the
  connection, the cursor, a statement of the loop or the commit is such an exception.
\<close>

theorem upsert_returns_flag_and_message:
  "(snd (try_block lib w df) = None \<longrightarrow> snd (insert_into_sql lib w df) = (True, done_msg)) \<and>
   (snd (try_block lib w df) = Some e \<longrightarrow> snd (insert_into_sql lib w df) = (False, str_exn e)) \<and>
   (map_of (environ w) ''SqlConnectionString'' = Some c \<and> connect_fault (driver w) c = Some e
      \<longrightarrow> snd (insert_into_sql lib w df) = (False, str_exn e)) \<and>
   (map_of (environ w) ''SqlConnectionString'' = Some c \<and> connect_fault (driver w) c = None \<and>
    cursor_fault (driver w) = Some e
      \<longrightarrow> snd (insert_into_sql lib w df) = (False, str_exn e)) \<and>
   (map_of (environ w) ''SqlConnectionString'' = Some c \<and> connect_fault (driver w) c = None \<and>
    cursor_fault (driver w) = None \<and>
    insert_rows lib (driver w) df 0 (table w) df = Inl e
      \<longrightarrow> snd (insert_into_sql lib w df) = (False, str_exn e)) \<and>
   (map_of (environ w) ''SqlConnectionString'' = Some c \<and> connect_fault (driver w) c = None \<and>
    cursor_fault (driver w) = None \<and>
    insert_rows lib (driver w) df 0 (table w) df = Inr t' \<and> commit_fault (driver w) = Some e
      \<longrightarrow> snd (insert_into_sql lib w df) = (False, str_exn e))"
  by (auto simp: insert_into_sql_def try_block_def split: option.splits sum.splits)

theorem upsert_returns_flag_and_message_witness:
  "snd (try_block exact_library demo_world
          (map normalise_json_ordered [entry ''IC1'' ''5'', entry ''IC1'' ''7''])) = None \<and>
   snd (insert_into_sql exact_library demo_world
          (map normalise_json_ordered [entry ''IC1'' ''5'', entry ''IC1'' ''7''])) = (True, done_msg) \<and>
   snd (insert_into_sql exact_library
          (demo_world\<lparr>driver := fails_at 0 (LibraryError ''timeout'')\<rparr>)
          (map normalise_json_ordered [entry ''IC1'' ''5''])) = (False, ''timeout'')"
proof -
  let ?df = "map normalise_json_ordered [entry ''IC1'' ''5'', entry ''IC1'' ''7'']"
  let ?df1 = "map normalise_json_ordered [entry ''IC1'' ''5'']"
  let ?w = "demo_world\<lparr>driver := fails_at 0 (LibraryError ''timeout'')\<rparr>"
  have ok: "snd (try_block exact_library demo_world ?df) = None"
    by (simp add: run_defs convert_time_def try_block_def)
  have env: "map_of (environ ?w) ''SqlConnectionString'' = Some ''Driver=x''"
    and con: "connect_fault (driver ?w) ''Driver=x'' = None"
    and cur: "cursor_fault (driver ?w) = None"
    by (simp_all add: run_defs fails_at_def)
  have loop: "insert_rows exact_library (driver ?w) ?df1 0 (table ?w) ?df1
                = Inl (LibraryError ''timeout'')"
    by (simp add: run_defs fails_at_def convert_time_def)
  show ?thesis
    using ok env con cur loop
      upsert_returns_flag_and_message [of exact_library demo_world ?df]
      upsert_returns_flag_and_message
        [of exact_library ?w ?df1 "LibraryError ''timeout''" "''Driver=x''"]
    by simp
qed

text \<open>
  C8. Rows are never updated or deleted: after any call the committed table starts with
  the table as it was before. When the key of every record of the batch is already
  there, the table is the same as before, whatever the platforms of the records.
\<close>

theorem existing_rows_unchanged:
  "prefix (table w) (table (fst (insert_into_sql lib w df))) \<and>
   ((\<forall>row \<in> set df. \<exists>s v d p. row_params lib df row = Inr (s, v, d, p) \<and>
                                key_exists (table w) s v d)
      \<longrightarrow> table (fst (insert_into_sql lib w df)) = table w)"
proof -
  let ?t' = "table (fst (try_block lib w df))"
  from try_block_table [of lib w df] have "prefix (table w) ?t'"
    using insert_rows_prefix by fastforce
  moreover
  from try_block_table [of lib w df]
  have "(\<forall>row \<in> set df. \<exists>s v d p. row_params lib df row = Inr (s, v, d, p) \<and>
                                 key_exists (table w) s v d)
          \<longrightarrow> ?t' = table w"
    using insert_rows_present [of df lib df "table w" "driver w" 0 ?t'] by blast
  ultimately show ?thesis
    by (simp only: insert_into_sql_fst)
qed

theorem existing_rows_unchanged_witness:
  "row_params exact_library [normalise_json_ordered (entry ''IC1'' ''7'')]
     (normalise_json_ordered (entry ''IC1'' ''7''))
     = Inr (JStr ''Brussel-Zuid'', JStr ''IC1'', Some 1698937200, JStr ''7'') \<and>
   key_exists [stored_row ''IC1'' (Some 1698937200) ''5'']
     (JStr ''Brussel-Zuid'') (JStr ''IC1'') (Some 1698937200) \<and>
   table (fst (insert_into_sql exact_library
                 (demo_world\<lparr>table := [stored_row ''IC1'' (Some 1698937200) ''5'']\<rparr>)
                 [normalise_json_ordered (entry ''IC1'' ''7'')]))
     = [stored_row ''IC1'' (Some 1698937200) ''5'']"
proof -
  let ?w = "demo_world\<lparr>table := [stored_row ''IC1'' (Some 1698937200) ''5'']\<rparr>"
  let ?row = "normalise_json_ordered (entry ''IC1'' ''7'')"
  have ps: "row_params exact_library [?row] ?row
              = Inr (JStr ''Brussel-Zuid'', JStr ''IC1'', Some 1698937200, JStr ''7'')"
    by (simp add: run_defs stored_row_def convert_time_def)
  have ex: "key_exists (table ?w) (JStr ''Brussel-Zuid'') (JStr ''IC1'') (Some 1698937200)"
    by (simp add: run_defs stored_row_def)
  have tbl: "table ?w = [stored_row ''IC1'' (Some 1698937200) ''5'']"
    by simp
  have "\<forall>row \<in> set [?row]. \<exists>s v d p. row_params exact_library [?row] row = Inr (s, v, d, p) \<and>
                                       key_exists (table ?w) s v d"
    using ps ex by simp
  with existing_rows_unchanged [of ?w exact_library "[?row]"]
  have "table (fst (insert_into_sql exact_library ?w [?row])) = table ?w"
    by blast
  with ps ex show ?thesis
    by (simp only: tbl simp_thms)
qed

section \<open>Properties of the normalizer\<close>

lemma set_columns: "set (columns df) = (\<Union>row \<in> set df. fst ` set row)"
  by (auto simp: columns_def)

lemma row_get_field:
  assumes "row \<in> set df" and "distinct (map fst row)" and "(k, v) \<in> set row"
  shows "row_get lib df row k dflt = (case v of JNum n \<Rightarrow> number_cell lib df k n | _ \<Rightarrow> v)"
proof -
  from assms(1,3) have "k \<in> set (columns df)"
    by (force simp: set_columns)
  moreover from assms(2,3) have "map_of row k = Some v"
    by simp
  ultimately show ?thesis
    by (simp add: row_get_def split: json.splits)
qed

lemma those_dict_items: "those (map (dict_items \<circ> JObj) entries) = Some entries"
  by (induction entries) simp_all

text \<open>
  The flattening writes every leaf under its dotted key. Where the keys of the leaves
  are distinct the record is the list of the leaves; in any case the record maps a key
  to the value of the last leaf with that key.
\<close>

lemma update_fresh: "k \<notin> fst ` set al \<Longrightarrow> AList.update k v al = al @ [(k, v)]"
  by (induction al) auto

lemma fold_update_fresh:
  "distinct (map fst (acc @ xs))
     \<Longrightarrow> fold (\<lambda>kv d. AList.update (fst kv) (snd kv) d) xs acc = acc @ xs"
proof (induction xs arbitrary: acc)
  case Nil
  then show ?case by simp
next
  case (Cons x xs)
  from Cons.prems have "fst x \<notin> fst ` set acc"
    by auto
  then have "AList.update (fst x) (snd x) acc = acc @ [x]"
    by (simp add: update_fresh)
  moreover from Cons.prems have "distinct (map fst ((acc @ [x]) @ xs))"
    by simp
  ultimately show ?case
    using Cons.IH [of "acc @ [x]"] by simp
qed

lemma normalise_json_leaves:
  "distinct (map fst (nd @ leaves key v)) \<Longrightarrow> normalise_json v key nd = nd @ leaves key v"
proof (induction v key nd rule: normalise_json.induct)
  case (1 kvs key_string normalized_dict)
  have "fold (\<lambda>kv nd. normalise_json (snd kv) (new_key key_string (fst kv)) nd) xs acc
          = acc @ concat (map (\<lambda>kv. leaves (new_key key_string (fst kv)) (snd kv)) xs)"
    if "set xs \<subseteq> set kvs"
      and "distinct (map fst
             (acc @ concat (map (\<lambda>kv. leaves (new_key key_string (fst kv)) (snd kv)) xs)))"
    for xs acc
    using that
  proof (induction xs arbitrary: acc)
    case Nil
    show ?case by simp
  next
    case (Cons x xs)
    let ?L = "leaves (new_key key_string (fst x)) (snd x)"
    from Cons.prems(1) have x: "x \<in> set kvs"
      by simp
    from Cons.prems(2) have "distinct (map fst (acc @ ?L))"
      by auto
    from "1.IH" [OF x this]
    have step: "normalise_json (snd x) (new_key key_string (fst x)) acc = acc @ ?L" .
    from Cons.prems have "set xs \<subseteq> set kvs"
      and "distinct (map fst
             ((acc @ ?L) @ concat (map (\<lambda>kv. leaves (new_key key_string (fst kv)) (snd kv)) xs)))"
      by simp_all
    from Cons.IH [OF this] step show ?case
      by simp
  qed
  from this [of kvs normalized_dict] "1.prems" show ?case
    by simp
qed (simp_all add: update_fresh)

lemma normalise_json_ordered_fields:
  assumes "distinct (map fst (flat_fields items))"
  shows "normalise_json_ordered items = flat_fields items"
proof -
  let ?top = "filter (\<lambda>kv. \<not> is_dict (snd kv)) items"
  let ?nested = "JObj (filter (\<lambda>kv. is_dict (snd kv)) items)"
  from assms have "distinct (map fst ([] @ leaves [] ?nested))"
    by (simp add: flat_fields_def)
  from normalise_json_leaves [OF this]
  have nested: "normalise_json ?nested [] [] = leaves [] ?nested"
    by (simp only: append_Nil)
  from assms have "distinct (map fst (?top @ leaves [] ?nested))"
    by (simp only: flat_fields_def)
  from fold_update_fresh [OF this] show ?thesis
    by (simp only: normalise_json_ordered_def flat_fields_def Let_def nested)
qed

lemma map_of_fold_update:
  "map_of (fold (\<lambda>kv d. AList.update (fst kv) (snd kv) d) xs acc) = map_of acc ++ map_of (rev xs)"
proof (induction xs arbitrary: acc)
  case Nil
  show ?case by simp
next
  case (Cons x xs)
  have "map_of (fold (\<lambda>kv d. AList.update (fst kv) (snd kv) d) (x # xs) acc)
          = map_of (AList.update (fst x) (snd x) acc) ++ map_of (rev xs)"
    using Cons.IH by simp
  also have "\<dots> = (map_of acc)(fst x \<mapsto> snd x) ++ map_of (rev xs)"
    by (simp only: update_conv')
  also have "\<dots> = map_of acc ++ map_of (rev (x # xs))"
    by (cases x) (auto simp: map_add_def fun_eq_iff split: option.splits)
  finally show ?case .
qed

lemma map_of_normalise_json:
  "map_of (normalise_json v key nd) = map_of nd ++ map_of (rev (leaves key v))"
proof (induction v key nd rule: normalise_json.induct)
  case (1 kvs key_string normalized_dict)
  have "map_of (fold (\<lambda>kv nd. normalise_json (snd kv) (new_key key_string (fst kv)) nd) xs acc)
          = map_of acc ++
            map_of (rev (concat (map (\<lambda>kv. leaves (new_key key_string (fst kv)) (snd kv)) xs)))"
    if "set xs \<subseteq> set kvs" for xs acc
    using that
  proof (induction xs arbitrary: acc)
    case Nil
    show ?case by simp
  next
    case (Cons x xs)
    let ?L = "leaves (new_key key_string (fst x)) (snd x)"
    from Cons.prems have x: "x \<in> set kvs" and rest: "set xs \<subseteq> set kvs"
      by simp_all
    from "1.IH" [OF x]
    have step: "map_of (normalise_json (snd x) (new_key key_string (fst x)) acc)
                  = map_of acc ++ map_of (rev ?L)" .
    from Cons.IH [OF rest] step show ?case
      by simp
  qed
  from this [of kvs normalized_dict] show ?case
    by simp
qed (auto simp: update_conv' map_add_def fun_eq_iff)

lemma distinct_normalise_json:
  "distinct (map fst nd) \<Longrightarrow> distinct (map fst (normalise_json v key nd))"
proof (induction v key nd rule: normalise_json.induct)
  case (1 kvs key_string normalized_dict)
  have "distinct (map fst
          (fold (\<lambda>kv nd. normalise_json (snd kv) (new_key key_string (fst kv)) nd) xs acc))"
    if "set xs \<subseteq> set kvs" and "distinct (map fst acc)" for xs acc
    using that
  proof (induction xs arbitrary: acc)
    case Nil
    then show ?case by simp
  next
    case (Cons x xs)
    from Cons.prems have x: "x \<in> set kvs" and rest: "set xs \<subseteq> set kvs"
      by simp_all
    from "1.IH" [OF x Cons.prems(2)] Cons.IH [OF rest] show ?case
      by simp
  qed
  from this [of kvs normalized_dict] "1.prems" show ?case
    by simp
qed (simp_all add: distinct_update)

lemma map_of_rev_distinct: "distinct (map fst xs) \<Longrightarrow> map_of (rev xs) = map_of xs"
  by (subst map_of_inject_set) (simp_all add: rev_map [symmetric])

lemma map_of_normalise_json_ordered:
  assumes "distinct (map fst items)"
  shows "map_of (normalise_json_ordered items) = map_of (rev (flat_fields items))"
proof -
  let ?top = "filter (\<lambda>kv. \<not> is_dict (snd kv)) items"
  let ?nested = "JObj (filter (\<lambda>kv. is_dict (snd kv)) items)"
  let ?nd = "normalise_json ?nested [] []"
  have "distinct (map fst ?nd)"
    by (rule distinct_normalise_json) simp
  then have "map_of (rev ?nd) = map_of ?nd"
    by (rule map_of_rev_distinct)
  also have "\<dots> = map_of (rev (leaves [] ?nested))"
    by (simp only: map_of_normalise_json) simp
  finally have nested: "map_of (rev ?nd) = map_of (rev (leaves [] ?nested))" .
  from assms have "distinct (map fst ?top)"
    by (simp add: distinct_map_filter)
  then have top: "map_of (rev ?top) = map_of ?top"
    by (rule map_of_rev_distinct)
  have "map_of (normalise_json_ordered items) = map_of ?top ++ map_of (rev ?nd)"
    by (simp only: normalise_json_ordered_def Let_def map_of_fold_update)
  also have "\<dots> = map_of (rev (flat_fields items))"
    by (simp only: flat_fields_def rev_append map_of_append nested top)
  finally show ?thesis .
qed

text \<open>
  C5. A payload object without \<^verbatim>\<open>departures\<close>, or whose \<^verbatim>\<open>departures\<close> object has no
  \<^verbatim>\<open>departure\<close> or an empty list there, normalizes to the DataFrame without rows; no
  exception is raised.
\<close>

theorem missing_departures_give_no_records:
  assumes "map_of kvs ''departures'' = None \<or>
           (\<exists>d. map_of kvs ''departures'' = Some (JObj d) \<and>
                (map_of d ''departure'' = None \<or> map_of d ''departure'' = Some (JArr [])))"
  shows "normalize_liveboard lib (JObj kvs) = Inr []"
  using assms by (auto simp: normalize_liveboard_def)

theorem missing_departures_give_no_records_witness:
  "normalize_liveboard exact_library (JObj [(''version'', JStr ''1.3'')]) = Inr [] \<and>
   normalize_liveboard exact_library (JObj [(''departures'', JObj [(''number'', JStr ''0'')])])
     = Inr [] \<and>
   normalize_liveboard exact_library (payload []) = Inr []"
proof -
  have a: "map_of [(''version'', JStr ''1.3'')] ''departures'' = None"
    by simp
  have b: "map_of [(''departures'', JObj [(''number'', JStr ''0'')])] ''departures''
             = Some (JObj [(''number'', JStr ''0'')]) \<and>
           map_of [(''number'', JStr ''0'')] ''departure'' = None"
    by simp
  have c: "map_of [(''departures'', JObj [(''departure'', JArr [])])] ''departures''
             = Some (JObj [(''departure'', JArr [])]) \<and>
           map_of [(''departure'', JArr [])] ''departure'' = Some (JArr [])"
    by simp
  from a have "normalize_liveboard exact_library (JObj [(''version'', JStr ''1.3'')]) = Inr []"
    by (intro missing_departures_give_no_records) blast
  moreover
  from b have "normalize_liveboard exact_library
                 (JObj [(''departures'', JObj [(''number'', JStr ''0'')])]) = Inr []"
    by (intro missing_departures_give_no_records) blast
  moreover
  from c have "normalize_liveboard exact_library
                 (JObj [(''departures'', JObj [(''departure'', JArr [])])]) = Inr []"
    by (intro missing_departures_give_no_records) blast
  ultimately show ?thesis
    by (simp add: payload_def)
qed

text \<open>
  C6. A payload whose \<^verbatim>\<open>departures.departure\<close> list has \<open>N\<close> entries, each a JSON object,
  normalizes to \<open>N\<close> records, the \<open>i\<close>-th holding the fields of the \<open>i\<close>-th entry: its own
  values, and the values inside its nested objects under their dotted keys. The record
  maps every key to the value the entry has there (the last one, should two paths give
  the same dotted key). When the dotted keys are distinct the record is the list of the
  fields in their order, and reading a field from the row gives the value of the entry,
  an integer as pandas hands it back.
\<close>

theorem one_record_per_entry:
  assumes "map_of kvs ''departures'' = Some (JObj d)"
    and "map_of d ''departure'' = Some (JArr (map JObj entries))"
  shows "\<exists>df. normalize_liveboard lib (JObj kvs) = Inr df \<and> length df = length entries \<and>
           (\<forall>i < length entries.
              (distinct (map fst (entries ! i))
                 \<longrightarrow> map_of (df ! i) = map_of (rev (flat_fields (entries ! i)))) \<and>
              (distinct (map fst (flat_fields (entries ! i)))
                 \<longrightarrow> df ! i = flat_fields (entries ! i) \<and>
                     (\<forall>k v dflt. (k, v) \<in> set (flat_fields (entries ! i))
                        \<longrightarrow> row_get lib df (df ! i) k dflt
                              = (case v of JNum n \<Rightarrow> number_cell lib df k n | _ \<Rightarrow> v))))"
proof -
  let ?df = "map normalise_json_ordered entries"
  have norm: "normalize_liveboard lib (JObj kvs) = Inr ?df"
    using assms by (simp add: normalize_liveboard_def those_dict_items)
  have len: "length ?df = length entries"
    by simp
  have rows: "\<forall>i < length entries.
      (distinct (map fst (entries ! i))
         \<longrightarrow> map_of (?df ! i) = map_of (rev (flat_fields (entries ! i)))) \<and>
      (distinct (map fst (flat_fields (entries ! i)))
         \<longrightarrow> ?df ! i = flat_fields (entries ! i) \<and>
             (\<forall>k v dflt. (k, v) \<in> set (flat_fields (entries ! i))
                \<longrightarrow> row_get lib ?df (?df ! i) k dflt
                      = (case v of JNum n \<Rightarrow> number_cell lib ?df k n | _ \<Rightarrow> v)))"
  proof (intro allI impI conjI)
    fix i
    assume "i < length entries" and "distinct (map fst (entries ! i))"
    then show "map_of (?df ! i) = map_of (rev (flat_fields (entries ! i)))"
      by (simp add: map_of_normalise_json_ordered)
  next
    fix i
    assume "i < length entries" and "distinct (map fst (flat_fields (entries ! i)))"
    then show "?df ! i = flat_fields (entries ! i)"
      by (simp add: normalise_json_ordered_fields)
  next
    fix i k v dflt
    assume i: "i < length entries"
      and dist: "distinct (map fst (flat_fields (entries ! i)))"
      and kv: "(k, v) \<in> set (flat_fields (entries ! i))"
    from i dist have eq: "?df ! i = flat_fields (entries ! i)"
      by (simp add: normalise_json_ordered_fields)
    from i have "?df ! i \<in> set ?df"
      by (metis length_map nth_mem)
    with eq have "flat_fields (entries ! i) \<in> set ?df"
      by simp
    from row_get_field [OF this dist kv] eq
    show "row_get lib ?df (?df ! i) k dflt
            = (case v of JNum n \<Rightarrow> number_cell lib ?df k n | _ \<Rightarrow> v)"
      by simp
  qed
  show ?thesis
    by (rule exI [of _ ?df], intro conjI) (rule norm, rule len, rule rows)
qed

theorem one_record_per_entry_witness:
  "normalize_liveboard exact_library (payload [feed_entry, entry ''IC2'' ''6''])
     = Inr [[(''id'', JStr ''0''),
             (''station'', JStr ''Antwerpen-Centraal''),
             (''time'', JStr ''1698937200''),
             (''delay'', JNum 60),
             (''vehicle'', JStr ''BE.NMBS.IC1234''),
             (''platform'', JStr ''5''),
             (''stationinfo.id'', JStr ''BE.NMBS.008821006''),
             (''stationinfo.name'', JStr ''Antwerpen-Centraal''),
             (''vehicleinfo.name'', JStr ''BE.NMBS.IC1234''),
             (''vehicleinfo.shortname'', JStr ''IC 1234''),
             (''platforminfo.name'', JStr ''5''),
             (''platforminfo.normal'', JStr ''1'')],
            [(''station'', JStr ''Brussel-Zuid''), (''vehicle'', JStr ''IC2''),
             (''time'', JStr ''1698937200''), (''platform'', JStr ''6'')]]"
proof -
  let ?entries = "[feed_entry, entry ''IC2'' ''6'']"
  let ?d = "[(''departure'', JArr (map JObj ?entries))]"
  have a: "map_of [(''departures'', JObj ?d)] ''departures'' = Some (JObj ?d)"
    by simp
  have b: "map_of ?d ''departure'' = Some (JArr (map JObj ?entries))"
    by simp
  have f0: "flat_fields feed_entry
      = [(''id'', JStr ''0''),
         (''station'', JStr ''Antwerpen-Centraal''),
         (''time'', JStr ''1698937200''),
         (''delay'', JNum 60),
         (''vehicle'', JStr ''BE.NMBS.IC1234''),
         (''platform'', JStr ''5''),
         (''stationinfo.id'', JStr ''BE.NMBS.008821006''),
         (''stationinfo.name'', JStr ''Antwerpen-Centraal''),
         (''vehicleinfo.name'', JStr ''BE.NMBS.IC1234''),
         (''vehicleinfo.shortname'', JStr ''IC 1234''),
         (''platforminfo.name'', JStr ''5''),
         (''platforminfo.normal'', JStr ''1'')]"
    by (simp add: flat_fields_def feed_entry_def new_key_def)
  have f1: "flat_fields (entry ''IC2'' ''6'')
      = [(''station'', JStr ''Brussel-Zuid''), (''vehicle'', JStr ''IC2''),
         (''time'', JStr ''1698937200''), (''platform'', JStr ''6'')]"
    by (simp add: flat_fields_def entry_def)
  have d0: "distinct (map fst (flat_fields feed_entry))"
    by (simp add: f0)
  have d1: "distinct (map fst (flat_fields (entry ''IC2'' ''6'')))"
    by (simp add: f1)
  from one_record_per_entry [OF a b, of exact_library] obtain df where
    norm: "normalize_liveboard exact_library (JObj [(''departures'', JObj ?d)]) = Inr df"
    and len: "length df = length ?entries"
    and rows: "\<forall>i < length ?entries.
                 distinct (map fst (flat_fields (?entries ! i)))
                   \<longrightarrow> df ! i = flat_fields (?entries ! i)"
    by blast
  from rows [rule_format, of 0] d0 have r0: "df ! 0 = flat_fields feed_entry"
    by simp
  from rows [rule_format, of 1] d1 have r1: "df ! 1 = flat_fields (entry ''IC2'' ''6'')"
    by simp
  from len have "df = [df ! 0, df ! 1]"
    by (cases df; cases "tl df") auto
  with r0 r1 norm show ?thesis
    by (simp add: payload_def f0 f1)
qed

section \<open>Properties of the on-demand handler\<close>

lemmas handler_defs =
  get_irail_data_def respond_def resolve_params_def body_params_def query_params_def
  no_valid_json_def py_or_def get_liveboard_def normalize_liveboard_def empty_def render_def
  default_station_def lower_char_def str_bool_def text_response_def



text \<open>
  C7. When the payload of the upstream feed normalizes to zero records the handler
  answers 404 and writes nothing to the store, whatever \<^verbatim>\<open>write_to_sql\<close> is: the world
  after the call differs from the one before by the request sent upstream only.
\<close>

theorem no_departures_not_found:
  assumes "resolve_params req = (station, response_format, write_to_sql)"
    and "upstream w station = Inr json_data"
    and "normalize_liveboard lib json_data = Inr df"
    and "length df = 0"
  shows "get_irail_data lib w req
           = (w\<lparr>fetched := fetched w @ [station]\<rparr>, text_response not_found_msg 404) \<and>
         status_code (snd (get_irail_data lib w req)) = 404 \<and>
         table (fst (get_irail_data lib w req)) = table w"
  using assms
  by (simp add: get_irail_data_def respond_def get_liveboard_def empty_def text_response_def)

theorem no_departures_not_found_witness:
  "resolve_params \<lparr>req_method = ''GET'', params = [(''sql'', ''true'')], get_json = None\<rparr>
     = (JStr ''Brussel-Zuid'', ''csv'', True) \<and>
   normalize_liveboard exact_library (payload []) = Inr [] \<and>
   status_code (snd (get_irail_data exact_library
                       (demo_world\<lparr>upstream := (\<lambda>st. Inr (payload []))\<rparr>)
                       \<lparr>req_method = ''GET'', params = [(''sql'', ''true'')], get_json = None\<rparr>))
     = 404 \<and>
   table (fst (get_irail_data exact_library
                 (demo_world\<lparr>upstream := (\<lambda>st. Inr (payload []))\<rparr>)
                 \<lparr>req_method = ''GET'', params = [(''sql'', ''true'')], get_json = None\<rparr>))
     = []"
proof -
  let ?req = "\<lparr>req_method = ''GET'', params = [(''sql'', ''true'')], get_json = None\<rparr>"
  let ?w = "demo_world\<lparr>upstream := (\<lambda>st. Inr (payload []))\<rparr>"
  have vars: "resolve_params ?req = (JStr ''Brussel-Zuid'', ''csv'', True)"
    by (simp add: handler_defs)
  have up: "upstream ?w (JStr ''Brussel-Zuid'') = Inr (payload [])"
    by simp
  have norm: "normalize_liveboard exact_library (payload []) = Inr []"
    by (simp add: normalize_liveboard_def payload_def)
  have len: "length ([] :: dataframe) = 0"
    by simp
  have tbl: "table ?w = []"
    by (simp add: demo_world_def)
  from no_departures_not_found [OF vars up norm len]
  have "status_code (snd (get_irail_data exact_library ?w ?req)) = 404 \<and>
        table (fst (get_irail_data exact_library ?w ?req)) = table ?w"
    by blast
  with vars norm show ?thesis
    by (simp only: tbl simp_thms)
qed



text \<open>
  C10, as stated: a POST whose JSON body gives \<^verbatim>\<open>sql\<close> as a boolean gets a 500
  response. It does not: with the body \<^verbatim>\<open>{"sql": true}\<close>, and with \<^verbatim>\<open>{"sql": false}\<close>,
  the handler answers 200, and in both cases the row is written to the store.
\<close>

theorem boolean_sql_in_body_answers_200:
  "status_code (snd (get_irail_data exact_library demo_world
                       \<lparr>req_method = ''POST'', params = [],
                        get_json = Some (JObj [(''sql'', JBool True)])\<rparr>)) = 200 \<and>
   status_code (snd (get_irail_data exact_library demo_world
                       \<lparr>req_method = ''POST'', params = [],
                        get_json = Some (JObj [(''sql'', JBool False)])\<rparr>)) = 200 \<and>
   table (fst (get_irail_data exact_library demo_world
                 \<lparr>req_method = ''POST'', params = [],
                  get_json = Some (JObj [(''sql'', JBool False)])\<rparr>))
     = [stored_row ''BE.NMBS.IC1234'' (Some 1698937200) ''5'']"
  by (simp add: handler_defs run_defs stored_row_def convert_time_def try_block_def insert_into_sql_def)

text \<open>
  C10, amended. For a POST whose JSON body is an object giving \<^verbatim>\<open>sql\<close> as a boolean,
  the exception of \<^verbatim>\<open>.lower()\<close> is caught by the handler of the inner \<^verbatim>\<open>try\<close>:
  \<^verbatim>\<open>write_to_sql\<close> keeps the value of the query string (true when the query has no
  \<^verbatim>\<open>sql\<close>), and the handler goes on to the fetch with it.
\<close>

theorem boolean_sql_in_body_ignored:
  assumes "req_method req = ''POST''"
    and "get_json req = Some (JObj kvs)"
    and "map_of kvs ''sql'' = Some (JBool b)"
  shows "snd (snd (resolve_params req))
           = (map lower_char (case map_of (params req) ''sql'' of None \<Rightarrow> ''true'' | Some s \<Rightarrow> s)
                = ''true'') \<and>
         get_irail_data lib w req
           = respond lib w
               (fst (resolve_params req), fst (snd (resolve_params req)),
                map lower_char (case map_of (params req) ''sql'' of None \<Rightarrow> ''true'' | Some s \<Rightarrow> s)
                  = ''true'')"
proof -
  have sql: "snd (snd (resolve_params req))
           = (map lower_char (case map_of (params req) ''sql'' of None \<Rightarrow> ''true'' | Some s \<Rightarrow> s)
                = ''true'')"
    using assms
    by (auto simp: resolve_params_def body_params_def query_params_def no_valid_json_def
        split: sum.splits prod.splits)
  have "get_irail_data lib w req
          = respond lib w (fst (resolve_params req), fst (snd (resolve_params req)),
                         snd (snd (resolve_params req)))"
    by (simp add: get_irail_data_def)
  with sql show ?thesis
    by simp
qed

theorem boolean_sql_in_body_ignored_witness:
  "snd (snd (resolve_params \<lparr>req_method = ''POST'', params = [(''sql'', ''false'')],
                            get_json = Some (JObj [(''sql'', JBool True)])\<rparr>)) = False \<and>
   get_irail_data exact_library demo_world
       \<lparr>req_method = ''POST'', params = [(''sql'', ''false'')],
        get_json = Some (JObj [(''sql'', JBool True)])\<rparr>
     = respond exact_library demo_world (JStr ''Brussel-Zuid'', ''csv'', False)"
proof -
  let ?req = "\<lparr>req_method = ''POST'', params = [(''sql'', ''false'')],
               get_json = Some (JObj [(''sql'', JBool True)])\<rparr>"
  have m: "req_method ?req = ''POST''"
    and j: "get_json ?req = Some (JObj [(''sql'', JBool True)])"
    and s: "map_of [(''sql'', JBool True)] ''sql'' = Some (JBool True)"
    by simp_all
  have q: "(map lower_char (case map_of (params ?req) ''sql'' of None \<Rightarrow> ''true'' | Some s \<Rightarrow> s)
             = ''true'') = False"
    by (simp add: lower_char_def)
  have st: "fst (resolve_params ?req) = JStr ''Brussel-Zuid''"
    and fmt: "fst (snd (resolve_params ?req)) = ''csv''"
    by (simp_all add: handler_defs)
  from boolean_sql_in_body_ignored [OF m j s, of exact_library demo_world]
  show ?thesis
    by (simp only: q st fmt simp_thms)
qed

end
